theory Spec2Isabelle
  imports Main "HOL-Library.Word" "HOL-Library.Sublist"
begin

unbundle bit_operations_syntax

section \<open>The build function of the dotnet-publish buildpack\<close>

text \<open>
  The development embeds \<^verbatim>\<open>build.go\<close>: the function \<^verbatim>\<open>Build\<close>, which returns the
  build function of the buildpack, and its helper \<^verbatim>\<open>setupNuGetConfig\<close>. The build function
  talks to four collaborators passed in as interfaces (the source remover, the publish
  process, the parser of \<^verbatim>\<open>buildpack.yml\<close>, the parser of the publish flags), to a
  logger, to the operating system (environment, files) and to two libraries (semantic
  versions, service bindings). Collaborators are parameters of the model; the operating
  system is a record of the files, the environment and the faults of its calls; every
  call the build function makes is appended to a trace, so that the order of the calls
  and the calls that were never made can be stated.
\<close>

subsection \<open>Errors and results\<close>

text \<open>
  A Go \<^verbatim>\<open>error\<close> is a message, or a message wrapped around another error
  (\<^verbatim>\<open>fmt.Errorf("...: %w", err)\<close>).
\<close>

datatype error = Errorf string | Wrapf string error

text \<open>\<^verbatim>\<open>packit.BuildResult{}\<close>: the build function only ever returns the empty result.\<close>

datatype BuildResult = BuildResult

text \<open>The build function returns a result and an error, or panics.\<close>

datatype outcome = Returned BuildResult "error option" | Panicked error

subsection \<open>Paths\<close>

type_synonym path = string

text \<open>
  \<^verbatim>\<open>filepath.Join\<close> on Unix: the elements from the first non-empty one on are joined
  with slashes and the result is cleaned (\<^verbatim>\<open>filepath.Clean\<close>): empty and \<^verbatim>\<open>.\<close>
  elements go, an inner \<^verbatim>\<open>..\<close> goes with the element before it, a \<^verbatim>\<open>..\<close> at the
  root goes, and the empty result is \<^verbatim>\<open>.\<close>.
\<close>

fun split_slash :: "string \<Rightarrow> string list" where
  "split_slash [] = [[]]"
| "split_slash (c # cs) =
     (if c = CHR ''/'' then [] # split_slash cs
      else (case split_slash cs of [] \<Rightarrow> [[c]] | x # xs \<Rightarrow> (c # x) # xs))"

fun join_slash :: "string list \<Rightarrow> string" where
  "join_slash [] = []"
| "join_slash [x] = x"
| "join_slash (x # y # ys) = x @ ''/'' @ join_slash (y # ys)"

text \<open>The elements kept so far are held in reverse, the last one first.\<close>

fun clean_elems :: "bool \<Rightarrow> string list \<Rightarrow> string list \<Rightarrow> string list" where
  "clean_elems rooted acc [] = rev acc"
| "clean_elems rooted acc (e # es) =
     (if e = [] \<or> e = ''.'' then clean_elems rooted acc es
      else if e = ''..'' then
        (case acc of
           [] \<Rightarrow> if rooted then clean_elems rooted [] es else clean_elems rooted [e] es
         | a # as \<Rightarrow> if a = ''..'' then clean_elems rooted (e # acc) es
                    else clean_elems rooted as es)
      else clean_elems rooted (e # acc) es)"

definition Clean :: "path \<Rightarrow> path" where
  "Clean p =
     (let rooted = (p \<noteq> [] \<and> hd p = CHR ''/'');
          out = (if rooted then ''/'' else []) @ join_slash (clean_elems rooted [] (split_slash p))
      in if out = [] then ''.'' else out)"

definition Join :: "string list \<Rightarrow> path" where
  "Join elem = (case dropWhile (\<lambda>e. e = []) elem of [] \<Rightarrow> [] | e # es \<Rightarrow> Clean (join_slash (e # es)))"

text \<open>A path strictly below a directory: the directory, a slash, and at least one more character.\<close>

definition below :: "path \<Rightarrow> path \<Rightarrow> bool" where
  "below d p =
     (let dd = (if d \<noteq> [] \<and> last d = CHR ''/'' then d else d @ ''/'')
      in length dd < length p \<and> take (length dd) p = dd)"

subsection \<open>The operating system\<close>

text \<open>
  \<^verbatim>\<open>os.FileMode\<close> is a 32-bit word; the permission bits are its low nine bits. The
  octal constants of the source are written in decimal: \<^verbatim>\<open>0644\<close> is 420, \<^verbatim>\<open>0700\<close> is 448.
\<close>

type_synonym FileMode = "32 word"

datatype node = File string FileMode | Dir FileMode

text \<open>
  The calls that touch the files. A call can fail for a reason the file table does not
  show (permissions, a read-only or full device, an I/O error): the field \<open>faults\<close> of
  the world gives the error of each call that fails so.
\<close>

datatype syscall =
    Sys_Mkdir path
  | Sys_ReadFile path
  | Sys_WriteFile path
  | Sys_Remove path
  | Sys_RemoveAll path

record world =
  files :: "(path \<times> node) list"
  environ :: "(string \<times> string) list"
  umask :: FileMode
  suffixes :: "string list"
  faults :: "(syscall \<times> error) list"

text \<open>
  \<open>files\<close> is read with \<open>map_of\<close>: the first entry of a path is the file at that path.
  \<open>suffixes\<close> is the sequence of suffixes that \<^verbatim>\<open>ioutil.TempDir\<close> draws.
\<close>

definition unlink :: "path \<Rightarrow> (path \<times> node) list \<Rightarrow> (path \<times> node) list" where
  "unlink name fs = filter (\<lambda>(q, _). q \<noteq> name) fs"

definition LookupEnv :: "string \<Rightarrow> world \<Rightarrow> string option" where
  "LookupEnv key w = map_of (environ w) key"

definition Getenv :: "string \<Rightarrow> world \<Rightarrow> string" where
  "Getenv key w = (case LookupEnv key w of None \<Rightarrow> [] | Some v \<Rightarrow> v)"

definition ReadFile :: "path \<Rightarrow> world \<Rightarrow> error + string" where
  "ReadFile filename w =
     (case map_of (faults w) (Sys_ReadFile filename) of
        Some e \<Rightarrow> Inl e
      | None \<Rightarrow>
          (case map_of (files w) filename of
             None \<Rightarrow> Inl (Errorf (''open '' @ filename @ '': no such file or directory''))
           | Some (Dir _) \<Rightarrow> Inl (Errorf (''read '' @ filename @ '': is a directory''))
           | Some (File data _) \<Rightarrow> Inr data))"

text \<open>
  \<^verbatim>\<open>ioutil.WriteFile\<close> opens with \<^verbatim>\<open>O_WRONLY|O_CREATE|O_TRUNC\<close>: a file that exists is
  truncated and keeps its mode, a new file gets the permission masked by the umask.
\<close>

definition WriteFile :: "path \<Rightarrow> string \<Rightarrow> FileMode \<Rightarrow> world \<Rightarrow> error option \<times> world" where
  "WriteFile filename data perm w =
     (case map_of (faults w) (Sys_WriteFile filename) of
        Some e \<Rightarrow> (Some e, w)
      | None \<Rightarrow>
          (case map_of (files w) filename of
             None \<Rightarrow>
               (None, w\<lparr>files := (filename, File data (perm AND NOT (umask w))) # files w\<rparr>)
           | Some (Dir _) \<Rightarrow> (Some (Errorf (''open '' @ filename @ '': is a directory'')), w)
           | Some (File _ m) \<Rightarrow>
               (None, w\<lparr>files := (filename, File data m) # unlink filename (files w)\<rparr>)))"

text \<open>\<^verbatim>\<open>os.Remove\<close> removes a file or an empty directory.\<close>

definition os_Remove :: "path \<Rightarrow> world \<Rightarrow> error option \<times> world" where
  "os_Remove name w =
     (case map_of (faults w) (Sys_Remove name) of
        Some e \<Rightarrow> (Some e, w)
      | None \<Rightarrow>
          (case map_of (files w) name of
             None \<Rightarrow> (Some (Errorf (''remove '' @ name @ '': no such file or directory'')), w)
           | Some (File _ _) \<Rightarrow> (None, w\<lparr>files := unlink name (files w)\<rparr>)
           | Some (Dir _) \<Rightarrow>
               if list_ex (\<lambda>(q, _). below name q) (files w)
               then (Some (Errorf (''remove '' @ name @ '': directory not empty'')), w)
               else (None, w\<lparr>files := unlink name (files w)\<rparr>)))"

text \<open>
  \<^verbatim>\<open>os.RemoveAll\<close> removes the path and everything below it; a path that does not
  exist is no error, a path whose last element is \<^verbatim>\<open>.\<close> is refused.
\<close>

definition endsWithDot :: "path \<Rightarrow> bool" where
  "endsWithDot p = (p = ''.'' \<or> (2 \<le> length p \<and> drop (length p - 2) p = ''/.''))"

definition RemoveAll :: "path \<Rightarrow> world \<Rightarrow> error option \<times> world" where
  "RemoveAll p w =
     (if p = [] then (None, w)
      else if endsWithDot p then (Some (Errorf (''RemoveAll '' @ p @ '': invalid argument'')), w)
      else
        (case map_of (faults w) (Sys_RemoveAll p) of
           Some e \<Rightarrow> (Some e, w)
         | None \<Rightarrow> (None, w\<lparr>files := filter (\<lambda>(q, _). \<not> (q = p \<or> below p q)) (files w)\<rparr>)))"

text \<open>
  \<^verbatim>\<open>ioutil.TempDir(dir, pattern)\<close>: in \<^verbatim>\<open>os.TempDir()\<close> when \<open>dir\<close> is empty, it makes a
  directory named by the pattern and a random suffix, with mode \<^verbatim>\<open>0700\<close>; a name that
  exists is skipped, and after 10000 such names it gives up.
\<close>

definition os_TempDir :: "world \<Rightarrow> path" where
  "os_TempDir w = (let dir = Getenv ''TMPDIR'' w in if dir = [] then ''/tmp'' else dir)"

fun TempDir_try :: "path \<Rightarrow> string \<Rightarrow> string list \<Rightarrow> world \<Rightarrow> (error + path) \<times> world" where
  "TempDir_try dir pattern [] w = (Inl (Errorf ''mkdir: file exists''), w)"
| "TempDir_try dir pattern (sfx # rest) w =
     (let try = Join [dir, pattern @ sfx]
      in case map_of (faults w) (Sys_Mkdir try) of
           Some e \<Rightarrow> (Inl e, w)
         | None \<Rightarrow>
             (case map_of (files w) try of
                Some _ \<Rightarrow> TempDir_try dir pattern rest w
              | None \<Rightarrow> (Inr try, w\<lparr>files := (try, Dir (448 AND NOT (umask w))) # files w\<rparr>)))"

definition TempDir :: "path \<Rightarrow> string \<Rightarrow> world \<Rightarrow> (error + path) \<times> world" where
  "TempDir dir pattern w =
     TempDir_try (if dir = [] then os_TempDir w else dir) pattern (take 10000 (suffixes w)) w"

subsection \<open>The libraries\<close>

text \<open>
  \<^verbatim>\<open>semver.Version\<close> of Masterminds/semver: three 64-bit signed numbers, the
  prerelease, the build metadata and the string it was parsed from. The parser
  \<^verbatim>\<open>semver.NewVersion\<close> is a parameter of the model.
\<close>

record Version =
  major :: "64 word"
  minor :: "64 word"
  patch :: "64 word"
  pre :: string
  metadata :: string
  original :: string

fun decimal :: "nat \<Rightarrow> string" where
  "decimal n =
     (if n < 10 then [char_of (48 + n)] else decimal (n div 10) @ [char_of (48 + n mod 10)])"

definition format_d :: "64 word \<Rightarrow> string" where
  "format_d x = (if sint x < 0 then ''-'' @ decimal (nat (- sint x)) else decimal (nat (sint x)))"

definition String :: "Version \<Rightarrow> string" where
  "String v =
     format_d (major v) @ ''.'' @ format_d (minor v) @ ''.'' @ format_d (patch v)
     @ (if pre v \<noteq> [] then ''-'' @ pre v else [])
     @ (if metadata v \<noteq> [] then ''+'' @ metadata v else [])"

definition originalVPrefix :: "Version \<Rightarrow> string" where
  "originalVPrefix v = (if original v \<noteq> [] \<and> take 1 (original v) = ''v'' then ''v'' else [])"

definition IncMajor :: "Version \<Rightarrow> Version" where
  "IncMajor v =
     (let vNext = v\<lparr>metadata := [], pre := [], patch := 0, minor := 0, major := major v + 1\<rparr>
      in vNext\<lparr>original := originalVPrefix v @ String vNext\<rparr>)"

text \<open>\<^verbatim>\<open>servicebindings.Binding\<close> of packit: the build function reads its path only.\<close>

record Binding =
  Binding_Name :: string
  Binding_Path :: path
  Binding_Type :: string
  Binding_Provider :: string

subsection \<open>The build context, the collaborators, the logger\<close>

record BuildpackInfo =
  Name :: string
  Version :: string

record Platform =
  Platform_Path :: path

record BuildContext =
  WorkingDir :: path
  Platform :: Platform
  BuildpackInfo :: BuildpackInfo

text \<open>
  The interfaces handed to \<^verbatim>\<open>Build\<close>, each a function on the world:
  \<^verbatim>\<open>SourceRemover.Remove\<close>, \<^verbatim>\<open>PublishProcess.Execute\<close>,
  \<^verbatim>\<open>BuildpackYMLParser.ParseProjectPath\<close>, \<^verbatim>\<open>CommandConfigParser.ParseFlagsFromEnvVar\<close>;
  and the two library functions the model does not fix: \<^verbatim>\<open>Resolver.Resolve\<close> of
  servicebindings, which lists the bindings of a type and provider under the platform
  directory, and \<^verbatim>\<open>semver.NewVersion\<close>. The clock that \<^verbatim>\<open>Build\<close> also takes is not used.
\<close>

record deps =
  Remove :: "path \<Rightarrow> path \<Rightarrow> string list \<Rightarrow> world \<Rightarrow> error option \<times> world"
  Execute :: "path \<Rightarrow> string \<Rightarrow> string \<Rightarrow> path \<Rightarrow> string list \<Rightarrow> world \<Rightarrow> error option \<times> world"
  ParseProjectPath :: "path \<Rightarrow> world \<Rightarrow> (error + string) \<times> world"
  ParseFlagsFromEnvVar :: "string \<Rightarrow> world \<Rightarrow> (error + string list) \<times> world"
  Resolve :: "string \<Rightarrow> string \<Rightarrow> path \<Rightarrow> world \<Rightarrow> error + Binding list"
  NewVersion :: "string \<Rightarrow> error + Version"

text \<open>The lines of the logger, one constructor for each method of \<^verbatim>\<open>scribe.Logger\<close> used.\<close>

datatype logline = Title string | Process string | is_Subprocess: Subprocess string | Break

text \<open>The calls of the build function, each with its arguments and what it returned.\<close>

datatype call =
    is_LookupEnv: Call_LookupEnv string "string option"
  | is_ParseProjectPath: Call_ParseProjectPath path "error + string"
  | is_TempDir: Call_TempDir path string "error + path"
  | is_ParseFlagsFromEnvVar: Call_ParseFlagsFromEnvVar string "error + string list"
  | is_ResolveOne: Call_ResolveOne string string path "error + Binding"
  | is_ReadFile: Call_ReadFile path "error + string"
  | is_WriteFile: Call_WriteFile path string FileMode "error option"
  | is_Execute: Call_Execute path string string path "string list" "error option"
  | is_Remove: Call_Remove path path "string list" "error option"
  | is_RemoveAll: Call_RemoveAll path "error option"
  | is_os_Remove: Call_os_Remove path "error option"

text \<open>
  A run of the build function: the world, the lines logged, the calls made, and the
  arguments of the deferred \<^verbatim>\<open>os.Remove\<close> calls, the last deferred first.
\<close>

record run =
  World :: world
  Log :: "logline list"
  Trace :: "call list"
  Deferred :: "path list"

definition logger :: "logline \<Rightarrow> run \<Rightarrow> run" where
  "logger l s = s\<lparr>Log := Log s @ [l]\<rparr>"

text \<open>A call that may change the world, and a call that only reads it.\<close>

definition perform :: "(world \<Rightarrow> 'a \<times> world) \<Rightarrow> ('a \<Rightarrow> call) \<Rightarrow> run \<Rightarrow> 'a \<times> run" where
  "perform f c s = (let (r, w) = f (World s) in (r, s\<lparr>World := w, Trace := Trace s @ [c r]\<rparr>))"

definition observe :: "(world \<Rightarrow> 'a) \<Rightarrow> ('a \<Rightarrow> call) \<Rightarrow> run \<Rightarrow> 'a \<times> run" where
  "observe f c s = (let r = f (World s) in (r, s\<lparr>Trace := Trace s @ [c r]\<rparr>))"

subsection \<open>The build function\<close>

text \<open>
  \<^verbatim>\<open>Resolver.ResolveOne\<close> of servicebindings: the bindings found must be exactly one.
\<close>

definition ResolveOne :: "deps \<Rightarrow> string \<Rightarrow> string \<Rightarrow> path \<Rightarrow> world \<Rightarrow> error + Binding" where
  "ResolveOne d typ provider platformDir w =
     (case Resolve d typ provider platformDir w of
        Inl err \<Rightarrow> Inl err
      | Inr bindings \<Rightarrow>
          if length bindings \<noteq> 1
          then Inl (Errorf (''found '' @ decimal (length bindings) @ '' bindings of type ''
                 @ [CHR 0x27] @ typ @ [CHR 0x27] @ '' with provider '' @ [CHR 0x27] @ provider
                 @ [CHR 0x27] @ '' but expected exactly 1''))
          else Inr (hd bindings))"

text \<open>\<^verbatim>\<open>setupNuGetConfig\<close> (lines 107 to 130).\<close>

definition setupNuGetConfig :: "Binding \<Rightarrow> path \<Rightarrow> run \<Rightarrow> (error + path) \<times> run" where
  "setupNuGetConfig nugetConfig workingDir s =
     (let nugetConfigPath = Join [Binding_Path nugetConfig, ''NuGet.Config''];
          (r, s1) = observe (ReadFile nugetConfigPath) (Call_ReadFile nugetConfigPath) s
      in case r of
           Inl err \<Rightarrow> (Inl err, s1)
         | Inr nugetConfigData \<Rightarrow>
             (let workDirNugetConfig = Join [workingDir, ''NuGet.Config''];
                  (err, s2) = perform (WriteFile workDirNugetConfig nugetConfigData 420)
                                (Call_WriteFile workDirNugetConfig nugetConfigData 420) s1
              in case err of
                   Some e \<Rightarrow> (Inl e, s2)
                 | None \<Rightarrow> (Inr workDirNugetConfig, s2)))"

text \<open>
  The warning of line 53, for the version string it is given, and the line that follows it.
\<close>

definition deprecation_warning :: "string \<Rightarrow> logline" where
  "deprecation_warning nextMajorVersion =
     Subprocess (''WARNING: Setting the project path through buildpack.yml will be deprecated soon in Dotnet Publish Buildpack v''
       @ nextMajorVersion)"

definition deprecation_advice :: logline where
  "deprecation_advice =
     Subprocess ''Please specify the project path through the $BP_DOTNET_PROJECT_PATH environment variable instead. See README.md or the documentation on paketo.io for more information.''"

text \<open>
  Lines 45 to 56: the project path, or the early exit (the error of the parser
  returned, or the panic of \<^verbatim>\<open>semver.MustParse\<close>, which panics with the error of
  \<^verbatim>\<open>semver.NewVersion\<close>).
\<close>

definition Build_projectPath :: "deps \<Rightarrow> BuildContext \<Rightarrow> run \<Rightarrow> (outcome + string) \<times> run" where
  "Build_projectPath d context s =
     (let (env, s1) = observe (LookupEnv ''BP_DOTNET_PROJECT_PATH'')
                        (Call_LookupEnv ''BP_DOTNET_PROJECT_PATH'') s
      in case env of
           Some projectPath \<Rightarrow> (Inr projectPath, s1)
         | None \<Rightarrow>
             (let file = Join [WorkingDir context, ''buildpack.yml''];
                  (r, s2) = perform (ParseProjectPath d file) (Call_ParseProjectPath file) s1
              in case r of
                   Inl err \<Rightarrow> (Inl (Returned BuildResult (Some err)), s2)
                 | Inr projectPath \<Rightarrow>
                     if projectPath \<noteq> [] then
                       (case NewVersion d (Version (BuildpackInfo context)) of
                          Inl err \<Rightarrow> (Inl (Panicked err), s2)
                        | Inr v \<Rightarrow>
                            (let nextMajorVersion = IncMajor v
                             in (Inr projectPath,
                                 logger deprecation_advice
                                   (logger (deprecation_warning (String nextMajorVersion)) s2))))
                     else (Inr projectPath, s2)))"

text \<open>
  Lines 73 to 83: the error to return, if any. The error of \<^verbatim>\<open>ResolveOne\<close> is only
  compared with \<^verbatim>\<open>nil\<close>; the removal of the copy is deferred.
\<close>

definition Build_nugetConfig :: "deps \<Rightarrow> BuildContext \<Rightarrow> run \<Rightarrow> error option \<times> run" where
  "Build_nugetConfig d context s =
     (let (r, s1) = observe (ResolveOne d ''nuget'' [] (Platform_Path (Platform context)))
                      (Call_ResolveOne ''nuget'' [] (Platform_Path (Platform context))) s
      in case r of
           Inl _ \<Rightarrow> (None, s1)
         | Inr nugetConfig \<Rightarrow>
             (let (r', s2) = setupNuGetConfig nugetConfig (WorkingDir context)
                               (logger (Process ''Using NuGet.Config binding'') s1)
              in case r' of
                   Inl err \<Rightarrow> (Some err, s2)
                 | Inr nugetConfigPath \<Rightarrow>
                     (None, s2\<lparr>Deferred := nugetConfigPath # Deferred s2\<rparr>)))"

text \<open>Lines 85 to 103.\<close>

definition Build_publish ::
  "deps \<Rightarrow> BuildContext \<Rightarrow> string \<Rightarrow> path \<Rightarrow> string list \<Rightarrow> run \<Rightarrow> outcome \<times> run" where
  "Build_publish d context projectPath tempDir flags s =
     (let s1 = logger (Process ''Executing build process'') s;
          root = Getenv ''DOTNET_ROOT'' (World s1);
          (err, s2) = perform (Execute d (WorkingDir context) root projectPath tempDir flags)
                        (Call_Execute (WorkingDir context) root projectPath tempDir flags) s1
      in case err of
           Some e \<Rightarrow> (Returned BuildResult (Some e), s2)
         | None \<Rightarrow>
             (let s3 = logger Break (logger (Process ''Removing source code'') s2);
                  (err, s4) = perform (Remove d (WorkingDir context) tempDir [''.dotnet_root''])
                                (Call_Remove (WorkingDir context) tempDir [''.dotnet_root'']) s3
              in case err of
                   Some e \<Rightarrow> (Returned BuildResult (Some e), s4)
                 | None \<Rightarrow>
                     (let (err, s5) = perform (RemoveAll tempDir) (Call_RemoveAll tempDir) s4
                      in case err of
                           Some e \<Rightarrow>
                             (Returned BuildResult
                                (Some (Wrapf ''could not remove temp directory: '' e)), s5)
                         | None \<Rightarrow> (Returned BuildResult None, s5))))"

text \<open>Lines 40 to 103, up to the return statement reached.\<close>

definition Build_body :: "deps \<Rightarrow> BuildContext \<Rightarrow> run \<Rightarrow> outcome \<times> run" where
  "Build_body d context s =
     (let s1 = logger (Title (Name (BuildpackInfo context) @ '' '' @ Version (BuildpackInfo context))) s;
          (p, s2) = Build_projectPath d context s1
      in case p of
           Inl out \<Rightarrow> (out, s2)
         | Inr projectPath \<Rightarrow>
             (let (t, s3) = perform (TempDir [] ''dotnet-publish-output'')
                              (Call_TempDir [] ''dotnet-publish-output'') s2
              in case t of
                   Inl err \<Rightarrow>
                     (Returned BuildResult (Some (Wrapf ''could not create temp directory: '' err)), s3)
                 | Inr tempDir \<Rightarrow>
                     (let (f, s4) = perform (ParseFlagsFromEnvVar d ''BP_DOTNET_PUBLISH_FLAGS'')
                                      (Call_ParseFlagsFromEnvVar ''BP_DOTNET_PUBLISH_FLAGS'') s3
                      in case f of
                           Inl err \<Rightarrow> (Returned BuildResult (Some err), s4)
                         | Inr flags \<Rightarrow>
                             (let (n, s5) = Build_nugetConfig d context s4
                              in case n of
                                   Some err \<Rightarrow> (Returned BuildResult (Some err), s5)
                                 | None \<Rightarrow> Build_publish d context projectPath tempDir flags s5))))"

text \<open>
  The deferred calls run when the function returns or panics, the last deferred first;
  what \<^verbatim>\<open>os.Remove\<close> returns there is dropped.
\<close>

fun run_deferred :: "path list \<Rightarrow> run \<Rightarrow> run" where
  "run_deferred [] s = s"
| "run_deferred (name # rest) s =
     run_deferred rest (snd (perform (os_Remove name) (Call_os_Remove name) s))"

definition Build :: "deps \<Rightarrow> BuildContext \<Rightarrow> world \<Rightarrow> outcome \<times> run" where
  "Build d context w =
     (let (out, s) = Build_body d context \<lparr>World = w, Log = [], Trace = [], Deferred = []\<rparr>
      in (out, run_deferred (Deferred s) (s\<lparr>Deferred := []\<rparr>)))"

subsection \<open>A build to evaluate\<close>

text \<open>
  A buildpack at version 1.2.3, a working directory with a project file, one binding of
  type nuget with its \<^verbatim>\<open>NuGet.Config\<close>, a \<^verbatim>\<open>buildpack.yml\<close> that names a project path, and
  collaborators that succeed and leave the files as they are.
\<close>

definition example_version :: "string \<Rightarrow> error + Version" where
  "example_version s =
     (if s = ''1.2.3''
      then Inr \<lparr>major = 1, minor = 2, patch = 3, pre = [], metadata = [], original = ''1.2.3''\<rparr>
      else Inl (Errorf ''Invalid Semantic Version''))"

definition example_binding :: Binding where
  "example_binding =
     \<lparr>Binding_Name = ''creds'', Binding_Path = ''/platform/bindings/creds'',
      Binding_Type = ''nuget'', Binding_Provider = []\<rparr>"

definition example_deps :: deps where
  "example_deps =
     \<lparr>Remove = (\<lambda>workingDir outputDir excludedFiles w. (None, w)),
      Execute = (\<lambda>workingDir rootDir projectPath outputPath flags w. (None, w)),
      ParseProjectPath = (\<lambda>file w. (Inr ''some/project/path'', w)),
      ParseFlagsFromEnvVar = (\<lambda>var w. (Inr [], w)),
      Resolve = (\<lambda>typ provider platformDir w. Inr [example_binding]),
      NewVersion = example_version\<rparr>"

definition example_context :: BuildContext where
  "example_context =
     \<lparr>WorkingDir = ''/workspace'', Platform = \<lparr>Platform_Path = ''/platform''\<rparr>,
      BuildpackInfo = \<lparr>Name = ''Some Buildpack'', Version = ''1.2.3''\<rparr>\<rparr>"

definition example_world :: world where
  "example_world =
     \<lparr>files = [(''/platform/bindings/creds/NuGet.Config'', File ''<configuration/>'' 384),
               (''/workspace/app.csproj'', File ''<Project/>'' 420)],
      environ = [], umask = 18, suffixes = [''123''], faults = []\<rparr>"

section \<open>Properties of the build function\<close>

subsection \<open>Auxiliary facts\<close>

lemma World_logger [simp]: "World (logger l s) = World s"
  by (simp add: logger_def)

lemma Build_projectPath_panic:
  "LookupEnv ''BP_DOTNET_PROJECT_PATH'' (World s) = None \<Longrightarrow>
   ParseProjectPath d (Join [WorkingDir context, ''buildpack.yml'']) (World s) = (Inr p, w') \<Longrightarrow>
   p \<noteq> [] \<Longrightarrow>
   NewVersion d (Version (BuildpackInfo context)) = Inl err \<Longrightarrow>
   Build_projectPath d context s =
     (Inl (Panicked err),
      s\<lparr>World := w',
        Trace := Trace s @ [Call_LookupEnv ''BP_DOTNET_PROJECT_PATH'' None,
                            Call_ParseProjectPath (Join [WorkingDir context, ''buildpack.yml'']) (Inr p)]\<rparr>)"
  by (simp add: Build_projectPath_def observe_def perform_def Let_def)

subsection \<open>The version of the buildpack\<close>

text \<open>
  Claim C9. When \<^verbatim>\<open>BP_DOTNET_PROJECT_PATH\<close> is not set, \<^verbatim>\<open>buildpack.yml\<close> gives a project
  path that is not empty, and the version of the buildpack is not a semantic version, the
  build function panics with the error of the version parser: it returns no error value,
  and it has made no call after the parsing of \<^verbatim>\<open>buildpack.yml\<close>.
\<close>

theorem Build_panics_on_invalid_version:
  assumes "LookupEnv ''BP_DOTNET_PROJECT_PATH'' w = None"
    and "ParseProjectPath d (Join [WorkingDir context, ''buildpack.yml'']) w = (Inr p, w')"
    and "p \<noteq> []"
    and "NewVersion d (Version (BuildpackInfo context)) = Inl err"
  shows "fst (Build d context w) = Panicked err \<and>
         Trace (snd (Build d context w)) =
           [Call_LookupEnv ''BP_DOTNET_PROJECT_PATH'' None,
            Call_ParseProjectPath (Join [WorkingDir context, ''buildpack.yml'']) (Inr p)]"
  using assms
  by (simp add: Build_def Build_body_def Build_projectPath_panic Let_def logger_def)

theorem Build_panics_on_invalid_version_witness:
  "fst (Build example_deps
         (example_context\<lparr>BuildpackInfo := \<lparr>Name = ''Some Buildpack'', Version = ''some-version''\<rparr>\<rparr>)
         example_world)
     = Panicked (Errorf ''Invalid Semantic Version'')"
proof -
  let ?c = "example_context\<lparr>BuildpackInfo := \<lparr>Name = ''Some Buildpack'', Version = ''some-version''\<rparr>\<rparr>"
  have h1: "LookupEnv ''BP_DOTNET_PROJECT_PATH'' example_world = None"
    by code_simp
  have h2: "ParseProjectPath example_deps (Join [WorkingDir ?c, ''buildpack.yml'']) example_world
              = (Inr ''some/project/path'', example_world)"
    by (simp add: example_deps_def)
  have h3: "''some/project/path'' \<noteq> []"
    by simp
  have h4: "NewVersion example_deps (Version (BuildpackInfo ?c))
              = Inl (Errorf ''Invalid Semantic Version'')"
    by (simp add: example_deps_def example_version_def)
  show ?thesis
    using Build_panics_on_invalid_version [OF h1 h2 h3 h4] by simp
qed

end
